theory Spec2Isabelle
  imports Complex_Main "HOL-Library.Char_ord" "HOL-Library.List_Lexorder" "HOL-Library.Option_ord"
begin

section \<open>Text and numbers as SQLite and Python see them\<close>

text \<open>
  Strings are ASCII texts. They are compared the way SQLite's BINARY collation and Python's
  \<^verbatim>\<open>str\<close> compare them: character by character, by character code
  (the lexicographic order on \<^typ>\<open>char list\<close>).
\<close>

definition is_digit :: "char \<Rightarrow> bool" where
  "is_digit c = (CHR ''0'' \<le> c \<and> c \<le> CHR ''9'')"

definition is_upper :: "char \<Rightarrow> bool" where
  "is_upper c = (CHR ''A'' \<le> c \<and> c \<le> CHR ''Z'')"

definition is_lower :: "char \<Rightarrow> bool" where
  "is_lower c = (CHR ''a'' \<le> c \<and> c \<le> CHR ''z'')"

definition digit_val :: "char \<Rightarrow> nat" where
  "digit_val c = of_char c - 48"

definition digit_char :: "nat \<Rightarrow> char" where
  "digit_char n = ''0123456789'' ! (n mod 10)"

text \<open>The value of a text made of decimal digits only; \<open>None\<close> for any other text.\<close>

definition read_digits :: "string \<Rightarrow> nat option" where
  "read_digits s =
     (if s \<noteq> [] \<and> list_all is_digit s
      then Some (foldl (\<lambda>a c. 10 * a + digit_val c) 0 s) else None)"

text \<open>\<open>zero_pad w n\<close>: the last \<open>w\<close> decimal digits of \<open>n\<close>, with leading zeros.\<close>

fun zero_pad :: "nat \<Rightarrow> nat \<Rightarrow> string" where
  "zero_pad 0 n = []"
| "zero_pad (Suc w) n = zero_pad w (n div 10) @ [digit_char (n mod 10)]"

text \<open>The decimal numeral of \<open>n\<close>; a number \<open>n\<close> has at most \<open>n + 1\<close> digits.\<close>

fun show_digits :: "nat \<Rightarrow> nat \<Rightarrow> string" where
  "show_digits 0 n = []"
| "show_digits (Suc k) n =
     (if n < 10 then [digit_char n] else show_digits k (n div 10) @ [digit_char (n mod 10)])"

definition show_nat :: "nat \<Rightarrow> string" where
  "show_nat n = show_digits (Suc n) n"

text \<open>
  \<^verbatim>\<open>str.lower()\<close> and \<^verbatim>\<open>str.upper()\<close> on ASCII text.
\<close>

definition lower_char :: "char \<Rightarrow> char" where
  "lower_char c =
     (case map_of (zip ''ABCDEFGHIJKLMNOPQRSTUVWXYZ'' ''abcdefghijklmnopqrstuvwxyz'') c of
        Some l \<Rightarrow> l | None \<Rightarrow> c)"

definition upper_char :: "char \<Rightarrow> char" where
  "upper_char c =
     (case map_of (zip ''abcdefghijklmnopqrstuvwxyz'' ''ABCDEFGHIJKLMNOPQRSTUVWXYZ'') c of
        Some u \<Rightarrow> u | None \<Rightarrow> c)"

definition py_lower :: "string \<Rightarrow> string" where
  "py_lower s = map lower_char s"

definition py_upper :: "string \<Rightarrow> string" where
  "py_upper s = map upper_char s"

text \<open>
  \<^verbatim>\<open>s.replace(old, '')\<close> for a non-empty \<open>old\<close>: every occurrence,
  found from the left, is cut out.
\<close>

fun py_remove :: "string \<Rightarrow> string \<Rightarrow> string" where
  "py_remove old [] = []"
| "py_remove old (c # cs) =
     (if old \<noteq> [] \<and> take (length old) (c # cs) = old
      then py_remove old (drop (length old) (c # cs))
      else c # py_remove old cs)"

text \<open>
  \<^verbatim>\<open>str.isalnum()\<close> on ASCII text: the text is not empty and each character
  is a letter or a digit.
\<close>

definition py_isalnum :: "string \<Rightarrow> bool" where
  "py_isalnum s = (s \<noteq> [] \<and> list_all (\<lambda>c. is_digit c \<or> is_upper c \<or> is_lower c) s)"

section \<open>SQLite's date and time functions\<close>

record date_time =
  dt_year :: nat
  dt_month :: nat
  dt_day :: nat
  dt_hour :: nat
  dt_minute :: nat
  dt_second :: nat

definition leap_year :: "nat \<Rightarrow> bool" where
  "leap_year y = (y mod 4 = 0 \<and> (y mod 100 \<noteq> 0 \<or> y mod 400 = 0))"

definition days_in_month :: "nat \<Rightarrow> nat \<Rightarrow> nat" where
  "days_in_month y m =
     (if m = 2 then (if leap_year y then 29 else 28)
      else if m = 4 \<or> m = 6 \<or> m = 9 \<or> m = 11 then 30 else 31)"

definition valid_date_time :: "date_time \<Rightarrow> bool" where
  "valid_date_time d =
     (dt_year d \<le> 9999 \<and> 1 \<le> dt_month d \<and> dt_month d \<le> 12
      \<and> 1 \<le> dt_day d \<and> dt_day d \<le> days_in_month (dt_year d) (dt_month d)
      \<and> dt_hour d < 24 \<and> dt_minute d < 60 \<and> dt_second d < 60)"

definition render_date :: "date_time \<Rightarrow> string" where
  "render_date d =
     zero_pad 4 (dt_year d) @ ''-'' @ zero_pad 2 (dt_month d) @ ''-'' @ zero_pad 2 (dt_day d)"

definition render_date_time :: "date_time \<Rightarrow> string" where
  "render_date_time d =
     render_date d @ '' '' @ zero_pad 2 (dt_hour d) @ '':'' @ zero_pad 2 (dt_minute d)
       @ '':'' @ zero_pad 2 (dt_second d)"

text \<open>
  The time values the model reads: \<^verbatim>\<open>YYYY-MM-DD HH:MM:SS\<close> and
  \<^verbatim>\<open>YYYY-MM-DD\<close> (midnight), each naming a day of the calendar and a time
  of the day. SQLite reads further notations (a \<^verbatim>\<open>T\<close> separator, fractions of
  a second, zone suffixes, day numbers past the end of a month, which it carries over);
  those are outside the model, which reads them as NULL like any malformed text.
\<close>

definition parse_date :: "string \<Rightarrow> (nat \<times> nat \<times> nat) option" where
  "parse_date s =
     (if length s = 10 \<and> s ! 4 = CHR ''-'' \<and> s ! 7 = CHR ''-'' then
        (case (read_digits (take 4 s), read_digits (take 2 (drop 5 s)),
               read_digits (take 2 (drop 8 s))) of
           (Some y, Some m, Some d) \<Rightarrow>
             (if 1 \<le> m \<and> m \<le> 12 \<and> 1 \<le> d \<and> d \<le> days_in_month y m
              then Some (y, m, d) else None)
         | _ \<Rightarrow> None)
      else None)"

definition parse_time :: "string \<Rightarrow> (nat \<times> nat \<times> nat) option" where
  "parse_time s =
     (if length s = 8 \<and> s ! 2 = CHR '':'' \<and> s ! 5 = CHR '':'' then
        (case (read_digits (take 2 s), read_digits (take 2 (drop 3 s)),
               read_digits (take 2 (drop 6 s))) of
           (Some h, Some m, Some sec) \<Rightarrow>
             (if h < 24 \<and> m < 60 \<and> sec < 60 then Some (h, m, sec) else None)
         | _ \<Rightarrow> None)
      else None)"

definition parse_date_time :: "string \<Rightarrow> date_time option" where
  "parse_date_time s =
     (if length s = 10 then
        (case parse_date s of
           Some (y, m, d) \<Rightarrow>
             Some \<lparr>dt_year = y, dt_month = m, dt_day = d,
                   dt_hour = 0, dt_minute = 0, dt_second = 0\<rparr>
         | None \<Rightarrow> None)
      else if length s = 19 \<and> s ! 10 = CHR '' '' then
        (case (parse_date (take 10 s), parse_time (drop 11 s)) of
           (Some (y, m, d), Some (h, mi, sec)) \<Rightarrow>
             Some \<lparr>dt_year = y, dt_month = m, dt_day = d,
                   dt_hour = h, dt_minute = mi, dt_second = sec\<rparr>
         | _ \<Rightarrow> None)
      else None)"

text \<open>
  \<^verbatim>\<open>strftime('%Y-%m-%d %H:', t)\<close>, \<^verbatim>\<open>strftime('%M', t)\<close>,
  \<^verbatim>\<open>DATE(t)\<close> and \<^verbatim>\<open>datetime(t)\<close>; NULL (\<open>None\<close>) when
  \<open>t\<close> is not a time value.
\<close>

definition strftime_YmdH :: "string \<Rightarrow> string option" where
  "strftime_YmdH t =
     map_option (\<lambda>d. render_date d @ '' '' @ zero_pad 2 (dt_hour d) @ '':'') (parse_date_time t)"

definition strftime_M :: "string \<Rightarrow> string option" where
  "strftime_M t = map_option (\<lambda>d. zero_pad 2 (dt_minute d)) (parse_date_time t)"

definition sql_date :: "string \<Rightarrow> string option" where
  "sql_date t = map_option render_date (parse_date_time t)"

definition sql_datetime :: "string option \<Rightarrow> string option" where
  "sql_datetime t =
     (case t of None \<Rightarrow> None | Some s \<Rightarrow> map_option render_date_time (parse_date_time s))"

text \<open>
  \<^verbatim>\<open>CAST(x AS INTEGER)\<close> of a text: the number its leading digits spell, 0 when
  it has none; NULL stays NULL. The operands of the query are never negative.
\<close>

definition sql_cast_integer :: "string option \<Rightarrow> nat option" where
  "sql_cast_integer x =
     map_option (\<lambda>s. foldl (\<lambda>a c. 10 * a + digit_val c) 0 (takeWhile is_digit s)) x"

text \<open>\<^verbatim>\<open>(x / m) * m\<close> on integers: NULL for a NULL operand and for division by 0.\<close>

definition sql_div_mul :: "nat option \<Rightarrow> nat \<Rightarrow> nat option" where
  "sql_div_mul x m =
     (case x of None \<Rightarrow> None | Some n \<Rightarrow> if m = 0 then None else Some ((n div m) * m))"

text \<open>\<^verbatim>\<open>printf('%02d', x)\<close>: at least two digits; NULL prints as 0.\<close>

definition printf_02d :: "nat option \<Rightarrow> string" where
  "printf_02d x =
     (case x of None \<Rightarrow> ''00'' | Some n \<Rightarrow> if n < 10 then zero_pad 2 n else show_nat n)"

text \<open>\<^verbatim>\<open>a || b\<close>: NULL when either side is NULL.\<close>

definition sql_concat :: "string option \<Rightarrow> string option \<Rightarrow> string option" where
  "sql_concat a b =
     (case a of None \<Rightarrow> None | Some x \<Rightarrow> (case b of None \<Rightarrow> None | Some y \<Rightarrow> Some (x @ y)))"

section \<open>The bar store\<close>

text \<open>
  A bar table holds one row per bar. Prices are the table's floating-point values; the
  queries only compare them and pick one of them, so they are modelled as real numbers.
  The volume may be NULL. \<open>columns\<close> lists the names of the columns the table
  declares, as written in its schema; of a row, the model keeps the values of the six bar
  columns (those of a column the table does not declare are never read).
\<close>

record bar =
  bar_end_datetime :: string
  open_price :: real
  high_price :: real
  low_price :: real
  close_price :: real
  volume :: "int option"

record table =
  columns :: "string list"
  rows :: "bar list"

text \<open>The store: its tables by name, as \<^verbatim>\<open>sqlite_master\<close> lists them.\<close>

type_synonym store = "(string \<times> table) list"

datatype error = ValueError string | OperationalError string | ConnectionError string

fun str :: "error \<Rightarrow> string" where
  "str (ValueError m) = m"
| "str (OperationalError m) = m"
| "str (ConnectionError m) = m"

text \<open>
  \<^verbatim>\<open>db_manager.get_connection()\<close> either raises or yields a connection to the
  store.
\<close>

type_synonym connection = "error + store"

definition MAX_DATA_POINTS :: int where
  "MAX_DATA_POINTS = 50000"

section \<open>The SQL the program runs\<close>

text \<open>
  A table name is spliced into the query text as \<^verbatim>\<open>[name]\<close>. The bracket
  quotation ends at the first \<^verbatim>\<open>]\<close>, so only a name without one is read back
  as that identifier; SQLite then resolves it without regard to the case of ASCII letters.
  For a name with a \<^verbatim>\<open>]\<close> the statement is not the intended one; the model
  lets it fail with SQLite's error.
\<close>

definition from_table :: "store \<Rightarrow> string \<Rightarrow> error + table" where
  "from_table db name =
     (if CHR '']'' \<in> set name then Inl (OperationalError ''unrecognized token'')
      else (case find (\<lambda>e. py_lower (fst e) = py_lower name) db of
              None \<Rightarrow> Inl (OperationalError (''no such table: '' @ name))
            | Some e \<Rightarrow> Inr (snd e)))"

definition has_column :: "table \<Rightarrow> string \<Rightarrow> bool" where
  "has_column t c = (py_lower c \<in> set (map py_lower (columns t)))"

text \<open>The first of the columns a statement names that the table does not have.\<close>

definition missing_column :: "table \<Rightarrow> string list \<Rightarrow> error option" where
  "missing_column t cs =
     map_option (\<lambda>c. OperationalError (''no such column: '' @ c))
       (find (\<lambda>c. \<not> has_column t c) cs)"

definition bar_columns :: "string list" where
  "bar_columns = [''bar_end_datetime'', ''open_price'', ''high_price'', ''low_price'',
                  ''close_price'', ''volume'']"

text \<open>
  The WHERE clause: \<^verbatim>\<open>bar_end_datetime >= start_date || ' 00:00:00'\<close> when a
  start date is given and not empty, \<^verbatim>\<open>bar_end_datetime <= end_date || ' 23:59:59'\<close>
  likewise, \<^verbatim>\<open>1=1\<close> otherwise. Both sides are texts.
\<close>

definition date_conditions :: "string option \<Rightarrow> string option \<Rightarrow> bar \<Rightarrow> bool" where
  "date_conditions start_date end_date b =
     ((case start_date of None \<Rightarrow> True
        | Some s \<Rightarrow> s = [] \<or> s @ '' 00:00:00'' \<le> bar_end_datetime b)
      \<and> (case end_date of None \<Rightarrow> True
        | Some e \<Rightarrow> e = [] \<or> bar_end_datetime b \<le> e @ '' 23:59:59''))"

text \<open>\<^verbatim>\<open>LIMIT n\<close>: a negative \<open>n\<close> means no limit.\<close>

definition sql_limit :: "int \<Rightarrow> 'a list \<Rightarrow> 'a list" where
  "sql_limit n xs = (if n < 0 then xs else take (nat n) xs)"

text \<open>Aggregate functions skip NULL and yield NULL when nothing is left.\<close>

fun non_null :: "'a option list \<Rightarrow> 'a list" where
  "non_null [] = []"
| "non_null (None # xs) = non_null xs"
| "non_null (Some v # xs) = v # non_null xs"

definition sql_avg :: "real option list \<Rightarrow> real option" where
  "sql_avg xs =
     (case non_null xs of [] \<Rightarrow> None
      | v # vs \<Rightarrow> Some (sum_list (v # vs) / real (length (v # vs))))"

definition sql_max :: "real option list \<Rightarrow> real option" where
  "sql_max xs = (case non_null xs of [] \<Rightarrow> None | v # vs \<Rightarrow> Some (fold max vs v))"

definition sql_min :: "real option list \<Rightarrow> real option" where
  "sql_min xs = (case non_null xs of [] \<Rightarrow> None | v # vs \<Rightarrow> Some (fold min vs v))"

text \<open>
  \<^verbatim>\<open>SUM\<close> over integers. SQLite raises when a sum leaves the 64-bit range; the
  model adds without bound, so it speaks of tables whose volume sums stay in that range.
\<close>

definition sql_sum :: "int option list \<Rightarrow> int option" where
  "sql_sum xs = (case non_null xs of [] \<Rightarrow> None | v # vs \<Rightarrow> Some (sum_list (v # vs)))"

text \<open>
  The grouping expressions of the two queries: the daily one is
  \<^verbatim>\<open>DATE(bar_end_datetime)\<close>, the minute-based one is
  \<^verbatim>\<open>datetime(strftime('%Y-%m-%d %H:', t) || printf('%02d', (CAST(strftime('%M', t) as INTEGER) / m) * m) || ':00')\<close>.
\<close>

definition daily_period :: "string \<Rightarrow> string option" where
  "daily_period t = sql_date t"

definition minute_period :: "nat \<Rightarrow> string \<Rightarrow> string option" where
  "minute_period interval_minutes t =
     sql_datetime
       (sql_concat
          (sql_concat (strftime_YmdH t)
             (Some (printf_02d
                (sql_div_mul (sql_cast_integer (strftime_M t)) interval_minutes))))
          (Some '':00''))"

text \<open>
  The common table expression: every selected row with its period and its two row
  numbers. \<^verbatim>\<open>ROW_NUMBER() OVER (PARTITION BY period ORDER BY bar_end_datetime)\<close>
  numbers the rows of a period from 1 in the order of their time texts, ascending for
  \<open>rn_first\<close> and descending for \<open>rn_last\<close>. Rows with equal time texts keep the
  order of the table in both (SQLite's sorter is stable; SQL leaves that order open).
  A row is known by its position in the table.
\<close>

type_synonym source_row = "nat \<times> bar"

definition order_asc :: "source_row list \<Rightarrow> source_row list" where
  "order_asc rs = sort_key (\<lambda>r. bar_end_datetime (snd r)) rs"

definition order_desc :: "source_row list \<Rightarrow> source_row list" where
  "order_desc rs = rev (sort_key (\<lambda>r. bar_end_datetime (snd r)) (rev rs))"

definition row_number :: "source_row list \<Rightarrow> source_row \<Rightarrow> nat" where
  "row_number ordered r = Suc (length (takeWhile (\<lambda>x. x \<noteq> r) ordered))"

record cte_row =
  period :: "string option"
  cte_bar :: bar
  rn_first :: nat
  rn_last :: nat

definition with_row_numbers :: "(string \<Rightarrow> string option) \<Rightarrow> source_row list \<Rightarrow> cte_row list" where
  "with_row_numbers period_of rs =
     map (\<lambda>r.
        let part = filter (\<lambda>x. period_of (bar_end_datetime (snd x))
                                = period_of (bar_end_datetime (snd r))) rs
        in \<lparr>period = period_of (bar_end_datetime (snd r)), cte_bar = snd r,
            rn_first = row_number (order_asc part) r,
            rn_last = row_number (order_desc part) r\<rparr>) rs"

text \<open>
  The outer SELECT: one row per period, \<^verbatim>\<open>GROUP BY period ORDER BY period ASC\<close>
  (NULL sorts first).
\<close>

record query_row =
  q_period :: "string option"
  q_open_price :: "real option"
  q_high_price :: "real option"
  q_low_price :: "real option"
  q_close_price :: "real option"
  q_volume :: "int option"
  q_bar_count :: nat

definition select_group :: "string option \<Rightarrow> cte_row list \<Rightarrow> query_row" where
  "select_group k g =
     \<lparr>q_period = k,
      q_open_price =
        sql_avg (map (\<lambda>r. if rn_first r = 1 then Some (open_price (cte_bar r)) else None) g),
      q_high_price = sql_max (map (\<lambda>r. Some (high_price (cte_bar r))) g),
      q_low_price = sql_min (map (\<lambda>r. Some (low_price (cte_bar r))) g),
      q_close_price =
        sql_avg (map (\<lambda>r. if rn_last r = 1 then Some (close_price (cte_bar r)) else None) g),
      q_volume = sql_sum (map (\<lambda>r. volume (cte_bar r)) g),
      q_bar_count = length g\<rparr>"

definition group_by_period :: "cte_row list \<Rightarrow> query_row list" where
  "group_by_period cte =
     map (\<lambda>k. select_group k (filter (\<lambda>r. period r = k) cte))
       (sort (remdups (map period cte)))"

definition period_expression :: "nat \<Rightarrow> string \<Rightarrow> string option" where
  "period_expression interval_minutes =
     (if interval_minutes = 1440 then daily_period else minute_period interval_minutes)"

definition aggregate_query ::
  "(string \<Rightarrow> string option) \<Rightarrow> table \<Rightarrow> string option \<Rightarrow> string option \<Rightarrow> int
    \<Rightarrow> query_row list" where
  "aggregate_query period_of t start_date end_date limit =
     (let selected = filter (date_conditions start_date end_date) (rows t)
      in sql_limit limit
           (group_by_period
              (with_row_numbers period_of (zip [0..<length selected] selected))))"

section \<open>aggregate\_timeframe\_data\<close>

text \<open>
  A data point of the response: the dictionary the program builds from a result row.
  \<^verbatim>\<open>float(x) if x else 0\<close> and \<^verbatim>\<open>int(x) if x else 0\<close> turn NULL (and
  zero) into 0. Raw rows carry no \<^verbatim>\<open>bar_count\<close>.
\<close>

record data_point =
  dp_datetime :: "string option"
  dp_open :: real
  dp_high :: real
  dp_low :: real
  dp_close :: real
  dp_volume :: int
  dp_bar_count :: "nat option"

definition float_or_0 :: "real option \<Rightarrow> real" where
  "float_or_0 x = (case x of None \<Rightarrow> 0 | Some v \<Rightarrow> if v \<noteq> 0 then v else 0)"

definition int_or_0 :: "int option \<Rightarrow> int" where
  "int_or_0 x = (case x of None \<Rightarrow> 0 | Some v \<Rightarrow> if v \<noteq> 0 then v else 0)"

definition aggregated_point :: "query_row \<Rightarrow> data_point" where
  "aggregated_point row =
     \<lparr>dp_datetime = q_period row,
      dp_open = float_or_0 (q_open_price row),
      dp_high = float_or_0 (q_high_price row),
      dp_low = float_or_0 (q_low_price row),
      dp_close = float_or_0 (q_close_price row),
      dp_volume = int_or_0 (q_volume row),
      dp_bar_count = Some (q_bar_count row)\<rparr>"

definition intervals :: "(string \<times> nat) list" where
  "intervals = [(''1min'', 1), (''5min'', 5), (''15min'', 15), (''30min'', 30),
                (''60min'', 60), (''120min'', 120), (''240min'', 240), (''1day'', 1440)]"

text \<open>
  The function checks the timeframe first, builds the query text, and only then asks for
  the connection and runs the query.
\<close>

definition aggregate_timeframe_data ::
  "connection \<Rightarrow> string \<Rightarrow> string \<Rightarrow> string option \<Rightarrow> string option \<Rightarrow> int
    \<Rightarrow> error + data_point list" where
  "aggregate_timeframe_data conn table_name timeframe start_date end_date limit =
     (case map_of intervals timeframe of
        None \<Rightarrow> Inl (ValueError (''Unsupported timeframe: '' @ timeframe))
      | Some interval_minutes \<Rightarrow>
          (case conn of
             Inl e \<Rightarrow> Inl e
           | Inr db \<Rightarrow>
               (case from_table db table_name of
                  Inl e \<Rightarrow> Inl e
                | Inr t \<Rightarrow>
                    (case missing_column t bar_columns of
                       Some e \<Rightarrow> Inl e
                     | None \<Rightarrow>
                         Inr (map aggregated_point
                                (aggregate_query (period_expression interval_minutes)
                                   t start_date end_date limit))))))"

section \<open>The table catalog\<close>

record instrument_descriptor =
  table_name :: string
  instrument :: string
  record_count :: nat
  date_range_start :: "string option"
  date_range_end :: "string option"

definition required_columns :: "string list" where
  "required_columns = [''bar_end_datetime'', ''open_price'', ''high_price'', ''low_price'',
                       ''close_price'']"

text \<open>
  \<^verbatim>\<open>PRAGMA table_info([name])\<close>: the declared column names; no rows for a name
  that resolves to no table.
\<close>

definition table_info :: "store \<Rightarrow> string \<Rightarrow> error + string list" where
  "table_info db name =
     (case from_table db name of
        Inr t \<Rightarrow> Inr (columns t)
      | Inl e \<Rightarrow> if CHR '']'' \<in> set name then Inl e else Inr [])"

text \<open>
  \<^verbatim>\<open>SELECT COUNT(*), MIN(bar_end_datetime), MAX(bar_end_datetime) FROM [name]\<close>.
\<close>

definition table_metadata :: "store \<Rightarrow> string \<Rightarrow> error + nat \<times> string option \<times> string option" where
  "table_metadata db name =
     (case from_table db name of
        Inl e \<Rightarrow> Inl e
      | Inr t \<Rightarrow>
          (case missing_column t [''bar_end_datetime''] of
             Some e \<Rightarrow> Inl e
           | None \<Rightarrow>
               (case map bar_end_datetime (rows t) of
                  [] \<Rightarrow> Inr (0, None, None)
                | x # xs \<Rightarrow> Inr (length (x # xs), Some (fold min xs x), Some (fold max xs x)))))"

definition instrument_name :: "string \<Rightarrow> string" where
  "instrument_name name = py_upper (py_remove ''bars_'' (py_remove ''_data'' (py_remove ''_bars'' name)))"

text \<open>
  The body of the loop over the tables: \<open>None\<close> where the program moves on to the next
  table (a missing column, no rows, or an \<^verbatim>\<open>sqlite3.Error\<close>, which it logs).
  The display label is left out: it is built from the fields kept here and its date
  parsing cannot fail the scan (any exception there is caught next to it).
\<close>

definition describe_table :: "store \<Rightarrow> string \<Rightarrow> instrument_descriptor option" where
  "describe_table db name =
     (case table_info db name of
        Inl e \<Rightarrow> None
      | Inr cols \<Rightarrow>
          if \<not> list_all (\<lambda>col. col \<in> set (map py_lower cols)) required_columns then None
          else
            (case table_metadata db name of
               Inl e \<Rightarrow> None
             | Inr (count, min_date, max_date) \<Rightarrow>
                 if count = 0 then None
                 else Some \<lparr>table_name = name, instrument = instrument_name name,
                            record_count = count, date_range_start = min_date,
                            date_range_end = max_date\<rparr>))"

text \<open>
  The scan: the tables in the order of their names, the entries sorted by instrument
  (Python's sort is stable). Any failure of the whole scan, such as no connection, is
  caught and gives the empty tuple.
\<close>

definition detect_trading_tables_scan :: "connection \<Rightarrow> instrument_descriptor list" where
  "detect_trading_tables_scan conn =
     (case conn of
        Inl e \<Rightarrow> []
      | Inr db \<Rightarrow> sort_key instrument (List.map_filter (describe_table db) (sort (map fst db))))"

text \<open>
  \<^verbatim>\<open>@lru_cache\<close> on a function without arguments: the first value returned is
  kept for the life of the process and returned by every later call.
\<close>

record app_state =
  catalog_cache :: "instrument_descriptor list option"

definition detect_trading_tables ::
  "connection \<Rightarrow> app_state \<Rightarrow> instrument_descriptor list \<times> app_state" where
  "detect_trading_tables conn st =
     (case catalog_cache st of
        Some v \<Rightarrow> (v, st)
      | None \<Rightarrow>
          (let v = detect_trading_tables_scan conn in (v, st\<lparr>catalog_cache := Some v\<rparr>)))"

section \<open>The HTTP handlers\<close>

datatype cell = CNull | CInt int | CReal real | CText string

datatype body =
    JsonError string
  | JsonData "data_point list"
  | JsonInstruments "instrument_descriptor list"
  | Attachment string "(string \<times> cell) list list"

record response =
  status :: nat
  body :: body

text \<open>
  The query string of a request. \<open>arg_limit\<close> holds what \<^verbatim>\<open>int()\<close> makes of the
  \<^verbatim>\<open>limit\<close> argument: the integer, or the message of the
  \<^verbatim>\<open>ValueError\<close> it raises.
\<close>

record request_args =
  arg_timeframe :: "string option"
  arg_start_date :: "string option"
  arg_end_date :: "string option"
  arg_limit :: "(string + int) option"
  arg_format :: "string option"

text \<open>
  \<^verbatim>\<open>@handle_db_errors\<close>: an exception that leaves the handler becomes a 500
  response. The decorator retries up to three times; every attempt runs the handler on
  the same request and store, so it ends the way the first one does.
\<close>

definition handle_db_errors :: "error + response \<Rightarrow> response" where
  "handle_db_errors result =
     (case result of
        Inr r \<Rightarrow> r
      | Inl (OperationalError m) \<Rightarrow> \<lparr>status = 500, body = JsonError (''Database error: '' @ m)\<rparr>
      | Inl e \<Rightarrow> \<lparr>status = 500, body = JsonError (''Server error: '' @ str e)\<rparr>)"

definition valid_table_name :: "string \<Rightarrow> bool" where
  "valid_table_name name = py_isalnum (py_remove ''-'' (py_remove ''_'' name))"

text \<open>
  \<^verbatim>\<open>SELECT name FROM sqlite_master WHERE type='table' AND name=? LIMIT 1\<close>: the
  name is a bound parameter, compared as it is.
\<close>

definition table_exists :: "store \<Rightarrow> string \<Rightarrow> bool" where
  "table_exists db name = (name \<in> set (map fst db))"

definition request_limit :: "(string + int) option \<Rightarrow> error + int" where
  "request_limit a =
     (case a of
        None \<Rightarrow> Inr (min MAX_DATA_POINTS MAX_DATA_POINTS)
      | Some (Inl m) \<Rightarrow> Inl (ValueError m)
      | Some (Inr n) \<Rightarrow> Inr (min n MAX_DATA_POINTS))"

definition raw_point :: "bar \<Rightarrow> data_point" where
  "raw_point b =
     \<lparr>dp_datetime = Some (bar_end_datetime b),
      dp_open = float_or_0 (Some (open_price b)),
      dp_high = float_or_0 (Some (high_price b)),
      dp_low = float_or_0 (Some (low_price b)),
      dp_close = float_or_0 (Some (close_price b)),
      dp_volume = int_or_0 (volume b),
      dp_bar_count = None\<rparr>"

text \<open>The rows a raw query selects: \<^verbatim>\<open>WHERE ... ORDER BY bar_end_datetime ASC LIMIT ?\<close>.\<close>

definition raw_rows :: "table \<Rightarrow> string option \<Rightarrow> string option \<Rightarrow> int \<Rightarrow> bar list" where
  "raw_rows t start_date end_date limit =
     sql_limit limit
       (sort_key bar_end_datetime (filter (date_conditions start_date end_date) (rows t)))"

definition raw_data ::
  "connection \<Rightarrow> string \<Rightarrow> string option \<Rightarrow> string option \<Rightarrow> int \<Rightarrow> error + data_point list" where
  "raw_data conn name start_date end_date limit =
     (case conn of
        Inl e \<Rightarrow> Inl e
      | Inr db \<Rightarrow>
          (case from_table db name of
             Inl e \<Rightarrow> Inl e
           | Inr t \<Rightarrow>
               (case missing_column t bar_columns of
                  Some e \<Rightarrow> Inl e
                | None \<Rightarrow> Inr (map raw_point (raw_rows t start_date end_date limit)))))"

definition get_data_handler :: "connection \<Rightarrow> string \<Rightarrow> request_args \<Rightarrow> error + response" where
  "get_data_handler conn name args =
     (if \<not> valid_table_name name
      then Inr \<lparr>status = 400, body = JsonError ''Invalid table name format''\<rparr>
      else
        (case conn of
           Inl e \<Rightarrow> Inl e
         | Inr db \<Rightarrow>
             if \<not> table_exists db name
             then Inr \<lparr>status = 404, body = JsonError (''Table '' @ name @ '' not found'')\<rparr>
             else
               (case request_limit (arg_limit args) of
                  Inl e \<Rightarrow> Inl e
                | Inr limit \<Rightarrow>
                    (let timeframe = (case arg_timeframe args of None \<Rightarrow> ''1min'' | Some tf \<Rightarrow> tf)
                     in case (if timeframe = ''raw''
                              then raw_data conn name (arg_start_date args) (arg_end_date args) limit
                              else aggregate_timeframe_data conn name timeframe
                                     (arg_start_date args) (arg_end_date args) limit) of
                          Inl e \<Rightarrow> Inr \<lparr>status = 500, body = JsonError (str e)\<rparr>
                        | Inr data \<Rightarrow> Inr \<lparr>status = 200, body = JsonData data\<rparr>))))"

definition get_data :: "connection \<Rightarrow> string \<Rightarrow> request_args \<Rightarrow> response" where
  "get_data conn name args = handle_db_errors (get_data_handler conn name args)"






definition get_instruments :: "connection \<Rightarrow> app_state \<Rightarrow> response \<times> app_state" where
  "get_instruments conn st =
     (let (instruments, st') = detect_trading_tables conn st
      in (handle_db_errors (Inr \<lparr>status = 200, body = JsonInstruments instruments\<rparr>), st'))"

section \<open>Notions the claims are stated with\<close>



text \<open>
  An aggregated data point read back as a bar: its period as the time, its values as the
  bar's values.
\<close>

definition reconstructed_bar :: "data_point \<Rightarrow> bar" where
  "reconstructed_bar p =
     \<lparr>bar_end_datetime = (case dp_datetime p of None \<Rightarrow> [] | Some t \<Rightarrow> t),
      open_price = dp_open p, high_price = dp_high p, low_price = dp_low p,
      close_price = dp_close p, volume = Some (dp_volume p)\<rparr>"


section \<open>Example stores and requests\<close>

definition es_bar :: bar where
  "es_bar = \<lparr>bar_end_datetime = ''2024-01-01 10:00:00'', open_price = 1, high_price = 2,
              low_price = 1, close_price = 2, volume = Some 5\<rparr>"

definition no_args :: request_args where
  "no_args = \<lparr>arg_timeframe = None, arg_start_date = None, arg_end_date = None,
               arg_limit = None, arg_format = None\<rparr>"



text \<open>One bar on each of ten days.\<close>

definition ten_days :: table where
  "ten_days = \<lparr>columns = bar_columns, rows =
     [\<lparr>bar_end_datetime = ''2024-01-01 10:00:00'', open_price = 1, high_price = 2,
        low_price = 1, close_price = 2, volume = Some 1\<rparr>,
      \<lparr>bar_end_datetime = ''2024-01-02 10:00:00'', open_price = 2, high_price = 3,
        low_price = 2, close_price = 3, volume = Some 2\<rparr>,
      \<lparr>bar_end_datetime = ''2024-01-03 10:00:00'', open_price = 3, high_price = 4,
        low_price = 3, close_price = 4, volume = Some 3\<rparr>,
      \<lparr>bar_end_datetime = ''2024-01-04 10:00:00'', open_price = 4, high_price = 5,
        low_price = 4, close_price = 5, volume = Some 4\<rparr>,
      \<lparr>bar_end_datetime = ''2024-01-05 10:00:00'', open_price = 5, high_price = 6,
        low_price = 5, close_price = 6, volume = Some 5\<rparr>,
      \<lparr>bar_end_datetime = ''2024-01-06 10:00:00'', open_price = 6, high_price = 7,
        low_price = 6, close_price = 7, volume = Some 6\<rparr>,
      \<lparr>bar_end_datetime = ''2024-01-07 10:00:00'', open_price = 7, high_price = 8,
        low_price = 7, close_price = 8, volume = Some 7\<rparr>,
      \<lparr>bar_end_datetime = ''2024-01-08 10:00:00'', open_price = 8, high_price = 9,
        low_price = 8, close_price = 9, volume = Some 8\<rparr>,
      \<lparr>bar_end_datetime = ''2024-01-09 10:00:00'', open_price = 9, high_price = 10,
        low_price = 9, close_price = 10, volume = Some 9\<rparr>,
      \<lparr>bar_end_datetime = ''2024-01-10 10:00:00'', open_price = 10, high_price = 11,
        low_price = 10, close_price = 11, volume = Some 10\<rparr>]\<rparr>"

text \<open>
  A store with a bar table, a table without the close column and a bar table without rows.
\<close>

definition catalog_example :: store where
  "catalog_example =
     [(''es_bars'', \<lparr>columns = bar_columns, rows = [es_bar]\<rparr>),
      (''no_close'', \<lparr>columns = [''bar_end_datetime'', ''open_price'', ''high_price'',
                                  ''low_price'', ''volume''], rows = [es_bar]\<rparr>),
      (''empty_bars'', \<lparr>columns = bar_columns, rows = []\<rparr>)]"


section \<open>Facts about texts and time values\<close>

lemma length_zero_pad: "length (zero_pad w n) = w"
  by (induction w arbitrary: n) auto

lemma zero_pad_2: "zero_pad 2 n = [digit_char (n div 10), digit_char n]"
  by (simp add: numeral_2_eq_2 digit_char_def)

lemma of_char_digit_char: "of_char (digit_char n) = (48::nat) + n mod 10"
proof -
  define k where "k = n mod 10"
  have "k < 10" by (simp add: k_def)
  then have "k = 0 \<or> k = 1 \<or> k = 2 \<or> k = 3 \<or> k = 4 \<or> k = 5 \<or> k = 6 \<or> k = 7 \<or> k = 8 \<or> k = 9"
    by arith
  then have "of_char (''0123456789'' ! k) = (48::nat) + k"
    by (elim disjE) simp_all
  then show ?thesis by (simp add: digit_char_def k_def)
qed

lemma digit_val_digit_char: "digit_val (digit_char n) = n mod 10"
  by (simp add: digit_val_def of_char_digit_char)

lemma is_digit_digit_char: "is_digit (digit_char n)"
proof -
  have "n mod 10 < 10" by simp
  then show ?thesis
    unfolding is_digit_def less_eq_char_def of_char_digit_char by simp
qed

lemma is_digit_zero_pad: "list_all is_digit (zero_pad w n)"
  by (induction w arbitrary: n) (auto simp: is_digit_digit_char)

lemma value_zero_pad:
  "foldl (\<lambda>a c. 10 * a + digit_val c) 0 (zero_pad w n) = n mod 10 ^ w"
proof (induction w arbitrary: n)
  case 0
  then show ?case by simp
next
  case (Suc w)
  have "n mod (10 * 10 ^ w) = 10 * (n div 10 mod 10 ^ w) + n mod 10"
    by (rule mod_mult2_eq)
  with Suc show ?case by (simp add: digit_val_digit_char)
qed

lemma zero_pad_eq_Nil: "zero_pad w n = [] \<longleftrightarrow> w = 0"
  using length_zero_pad [of w n] by (metis length_0_conv)

lemma read_digits_zero_pad: "0 < w \<Longrightarrow> n < 10 ^ w \<Longrightarrow> read_digits (zero_pad w n) = Some n"
  by (simp add: read_digits_def is_digit_zero_pad value_zero_pad zero_pad_eq_Nil
      del: zero_pad.simps)



lemma days_in_month_le: "days_in_month y m \<le> 31"
  by (simp add: days_in_month_def)

lemma length_render_date: "length (render_date d) = 10"
  by (simp add: render_date_def length_zero_pad del: zero_pad.simps)


lemma parse_render_date:
  assumes "dt_year d \<le> 9999" "1 \<le> dt_month d" "dt_month d \<le> 12" "1 \<le> dt_day d"
    "dt_day d \<le> days_in_month (dt_year d) (dt_month d)"
  shows "parse_date (render_date d) = Some (dt_year d, dt_month d, dt_day d)"
proof -
  have "dt_day d \<le> 31" using assms(5) days_in_month_le [of "dt_year d" "dt_month d"] by simp
  with assms show ?thesis
    by (simp add: parse_date_def render_date_def length_zero_pad nth_append
        read_digits_zero_pad del: zero_pad.simps)
qed



lemma parse_date_time_render_date:
  assumes "valid_date_time d"
  shows "parse_date_time (render_date d)
    = Some (d\<lparr>dt_hour := 0, dt_minute := 0, dt_second := 0\<rparr>)"
  using assms
  by (simp add: parse_date_time_def length_render_date parse_render_date valid_date_time_def)















lemma daily_period_parsed:
  assumes "parse_date_time t = Some d"
  shows "daily_period t = Some (render_date d)"
  using assms by (simp add: daily_period_def sql_date_def)




section \<open>Facts about the queries\<close>

lemma period_with_row_numbers:
  "map period (with_row_numbers p rs) = map (\<lambda>r. p (bar_end_datetime (snd r))) rs"
  by (simp add: with_row_numbers_def Let_def comp_def)




























lemma sql_limit_map: "map f (sql_limit n xs) = sql_limit n (map f xs)"
  by (simp add: sql_limit_def take_map)


lemma sql_limit_unlimited: "sql_limit (- 1) xs = xs"
  by (simp add: sql_limit_def)

lemma aggregate_query_limit:
  "aggregate_query p t sd ed limit = sql_limit limit (aggregate_query p t sd ed (- 1))"
  by (simp add: aggregate_query_def Let_def sql_limit_unlimited)

lemma periods_of_aggregate_query:
  "map q_period (aggregate_query p t sd ed (- 1))
     = sort (remdups (map (\<lambda>b. p (bar_end_datetime b)) (filter (date_conditions sd ed) (rows t))))"
proof -
  let ?sel = "filter (date_conditions sd ed) (rows t)"
  have "map (\<lambda>r. p (bar_end_datetime (snd r))) (zip [0..<length ?sel] ?sel)
      = map (\<lambda>b. p (bar_end_datetime b)) ?sel"
    by (simp add: map_snd_zip flip: map_map [of "\<lambda>b. p (bar_end_datetime b)" snd, unfolded comp_def])
  then show ?thesis
    by (simp add: aggregate_query_def Let_def sql_limit_unlimited group_by_period_def
        period_with_row_numbers select_group_def comp_def)
qed






lemmas parse_eval = parse_date_time_def parse_date_def parse_time_def read_digits_def
  is_digit_def digit_val_def days_in_month_def leap_year_def

lemma zero_pad_4:
  "zero_pad 4 n = [digit_char (n div 1000), digit_char (n div 100), digit_char (n div 10), digit_char n]"
proof -
  have e: "(4::nat) = Suc (Suc (Suc (Suc 0)))" by simp
  show ?thesis unfolding e by (simp add: digit_char_def div_mult2_eq [symmetric])
qed

lemma has_column_declared: "c \<in> set (columns t) \<Longrightarrow> has_column t c"
  by (simp add: has_column_def)

lemma missing_column_declared: "set cs \<subseteq> set (columns t) \<Longrightarrow> missing_column t cs = None"
  by (auto simp: missing_column_def find_None_iff has_column_declared)

lemma from_table_first:
  "CHR '']'' \<notin> set name \<Longrightarrow> from_table ((name, t) # db) name = Inr t"
  by (simp add: from_table_def)

lemmas render_eval = render_date_time_def render_date_def zero_pad_2 zero_pad_4 digit_char_def

lemmas text_eval = py_lower_def py_upper_def lower_char_def upper_char_def py_isalnum_def
  is_digit_def is_upper_def is_lower_def

lemma sort_key_replicate: "sort_key f (replicate n x) = replicate n x"
  by (rule sort_key_id_if_sorted) simp

lemma valid_es_bars: "valid_table_name ''es_bars''"
  by (simp add: valid_table_name_def text_eval)

lemma bar_columns_present:
  "missing_column \<lparr>columns = bar_columns, rows = rs\<rparr> bar_columns = None"
  by (simp add: missing_column_declared)

lemma from_es_bars: "from_table [(''es_bars'', t)] ''es_bars'' = Inr t"
  by (simp add: from_table_first)

lemma aggregate_returns:
  assumes "map_of intervals tf = Some m" "from_table db name = Inr t"
    "missing_column t bar_columns = None"
  shows "aggregate_timeframe_data (Inr db) name tf sd ed limit
    = Inr (map aggregated_point (aggregate_query (period_expression m) t sd ed limit))"
  using assms by (simp add: aggregate_timeframe_data_def)

lemma aggregate_InrE:
  assumes "aggregate_timeframe_data conn name tf sd ed limit = Inr out"
  obtains m db t where "map_of intervals tf = Some m" "conn = Inr db"
    "from_table db name = Inr t" "missing_column t bar_columns = None"
  using assms
  by (auto simp: aggregate_timeframe_data_def split: option.splits sum.splits)

lemma datetimes_of_aggregate_query:
  "map dp_datetime (map aggregated_point (aggregate_query p t sd ed (- 1)))
     = sort (remdups (map (\<lambda>b. p (bar_end_datetime b)) (filter (date_conditions sd ed) (rows t))))"
proof -
  have "map dp_datetime (map aggregated_point xs) = map q_period xs" for xs
    by (simp add: aggregated_point_def)
  then show ?thesis by (simp only: periods_of_aggregate_query)
qed


section \<open>Facts about the catalog and the handlers\<close>

lemma find_unique:
  "distinct (map f xs) \<Longrightarrow> x \<in> set xs \<Longrightarrow> find (\<lambda>e. f e = f x) xs = Some x"
  by (induction xs) (auto simp: image_iff)

lemma from_table_unique:
  assumes "distinct (map (\<lambda>e. py_lower (fst e)) db)" and "(name, t) \<in> set db"
    and "CHR '']'' \<notin> set name"
  shows "from_table db name = Inr t"
  using find_unique [OF assms(1,2)] assms(3) by (simp add: from_table_def)

lemma py_lower_required: "map py_lower required_columns = required_columns"
  by (simp add: required_columns_def text_eval)

lemma required_present_iff:
  "list_all (\<lambda>col. col \<in> py_lower ` set cols) required_columns
    \<longleftrightarrow> set required_columns \<subseteq> py_lower ` set cols"
  by (auto simp: list_all_iff)

lemma describe_table_name: "describe_table db n = Some d \<Longrightarrow> table_name d = n"
  by (auto simp: describe_table_def split: sum.splits if_splits prod.splits)

lemma describe_table_iff:
  assumes "from_table db name = Inr t"
  shows "describe_table db name \<noteq> None
    \<longleftrightarrow> set required_columns \<subseteq> set (map py_lower (columns t)) \<and> rows t \<noteq> []"
proof (cases "set required_columns \<subseteq> set (map py_lower (columns t))")
  case False
  then show ?thesis
    using assms by (simp add: describe_table_def table_info_def required_present_iff)
next
  case True
  have "''bar_end_datetime'' \<in> set (map py_lower required_columns)"
    unfolding py_lower_required by (simp add: required_columns_def)
  then have "py_lower ''bar_end_datetime'' \<in> set (map py_lower (columns t))"
    using True by (auto simp: required_columns_def text_eval)
  then have m: "missing_column t [''bar_end_datetime''] = None"
    by (simp add: missing_column_def has_column_def)
  show ?thesis
    using assms True m
    by (cases "rows t")
      (simp_all add: describe_table_def table_info_def required_present_iff table_metadata_def)
qed

lemma set_map_filter: "set (List.map_filter g xs) = {y. \<exists>x\<in>set xs. g x = Some y}"
  by (induction xs) (auto simp: map_filter_simps split: option.splits)

lemma set_scan:
  "set (detect_trading_tables_scan (Inr db))
    = {d. \<exists>n\<in>fst ` set db. describe_table db n = Some d}"
  by (simp add: detect_trading_tables_scan_def set_map_filter)

lemma py_lower_bar_columns: "map py_lower bar_columns = bar_columns"
  by (simp add: bar_columns_def text_eval)

lemma required_in_bar_columns: "set required_columns \<subseteq> set bar_columns"
  by (simp add: required_columns_def bar_columns_def)




section \<open>The example stores, evaluated\<close>

lemmas aggregate_eval = aggregate_timeframe_data_def intervals_def from_table_first
  missing_column_declared period_expression_def aggregate_query_def date_conditions_def
  with_row_numbers_def order_asc_def order_desc_def row_number_def
  group_by_period_def select_group_def sql_avg_def sql_max_def sql_min_def sql_sum_def
  sql_limit_def aggregated_point_def float_or_0_def int_or_0_def Let_def






lemma daily_period_ten_days:
  "daily_period ''2024-01-01 10:00:00'' = Some ''2024-01-01''"
  "daily_period ''2024-01-02 10:00:00'' = Some ''2024-01-02''"
  "daily_period ''2024-01-03 10:00:00'' = Some ''2024-01-03''"
  "daily_period ''2024-01-04 10:00:00'' = Some ''2024-01-04''"
  "daily_period ''2024-01-05 10:00:00'' = Some ''2024-01-05''"
  "daily_period ''2024-01-06 10:00:00'' = Some ''2024-01-06''"
  "daily_period ''2024-01-07 10:00:00'' = Some ''2024-01-07''"
  "daily_period ''2024-01-08 10:00:00'' = Some ''2024-01-08''"
  "daily_period ''2024-01-09 10:00:00'' = Some ''2024-01-09''"
  "daily_period ''2024-01-10 10:00:00'' = Some ''2024-01-10''"
  by (simp_all add: daily_period_def sql_date_def parse_eval render_eval)

lemma ten_days_1day:
  "aggregate_timeframe_data (Inr [(''es_bars'', ten_days)]) ''es_bars'' ''1day'' None None (- 1)
   = Inr
    [\<lparr>dp_datetime = Some ''2024-01-01'', dp_open = 1, dp_high = 2, dp_low = 1,
       dp_close = 2, dp_volume = 1, dp_bar_count = Some 1\<rparr>,
     \<lparr>dp_datetime = Some ''2024-01-02'', dp_open = 2, dp_high = 3, dp_low = 2,
       dp_close = 3, dp_volume = 2, dp_bar_count = Some 1\<rparr>,
     \<lparr>dp_datetime = Some ''2024-01-03'', dp_open = 3, dp_high = 4, dp_low = 3,
       dp_close = 4, dp_volume = 3, dp_bar_count = Some 1\<rparr>,
     \<lparr>dp_datetime = Some ''2024-01-04'', dp_open = 4, dp_high = 5, dp_low = 4,
       dp_close = 5, dp_volume = 4, dp_bar_count = Some 1\<rparr>,
     \<lparr>dp_datetime = Some ''2024-01-05'', dp_open = 5, dp_high = 6, dp_low = 5,
       dp_close = 6, dp_volume = 5, dp_bar_count = Some 1\<rparr>,
     \<lparr>dp_datetime = Some ''2024-01-06'', dp_open = 6, dp_high = 7, dp_low = 6,
       dp_close = 7, dp_volume = 6, dp_bar_count = Some 1\<rparr>,
     \<lparr>dp_datetime = Some ''2024-01-07'', dp_open = 7, dp_high = 8, dp_low = 7,
       dp_close = 8, dp_volume = 7, dp_bar_count = Some 1\<rparr>,
     \<lparr>dp_datetime = Some ''2024-01-08'', dp_open = 8, dp_high = 9, dp_low = 8,
       dp_close = 9, dp_volume = 8, dp_bar_count = Some 1\<rparr>,
     \<lparr>dp_datetime = Some ''2024-01-09'', dp_open = 9, dp_high = 10, dp_low = 9,
       dp_close = 10, dp_volume = 9, dp_bar_count = Some 1\<rparr>,
     \<lparr>dp_datetime = Some ''2024-01-10'', dp_open = 10, dp_high = 11, dp_low = 10,
       dp_close = 11, dp_volume = 10, dp_bar_count = Some 1\<rparr>]"
  by (simp add: aggregate_eval ten_days_def daily_period_ten_days)

section \<open>The claims\<close>







text \<open>
  C4. A timeframe outside the supported set fails validation before any bar is read:
  \<open>aggregate_timeframe_data\<close> raises its \<^verbatim>\<open>ValueError\<close> whatever the
  connection and the store are. The response of \<open>get_data\<close> to such a request for an
  existing table, however, has status 500, not 400: the handler's
  \<^verbatim>\<open>except Exception\<close> turns the validation error into a server error.
\<close>

theorem unsupported_timeframe_gives_500:
  "(\<forall>conn name sd ed lim.
      aggregate_timeframe_data conn name ''7min'' sd ed lim
        = Inl (ValueError ''Unsupported timeframe: 7min''))
   \<and> get_data (Inr [(''es_bars'', \<lparr>columns = bar_columns, rows = [es_bar]\<rparr>)]) ''es_bars''
        (no_args\<lparr>arg_timeframe := Some ''7min''\<rparr>)
      = \<lparr>status = 500, body = JsonError ''Unsupported timeframe: 7min''\<rparr>"
  by (simp add: get_data_def get_data_handler_def handle_db_errors_def valid_es_bars
      table_exists_def request_limit_def MAX_DATA_POINTS_def aggregate_timeframe_data_def
      intervals_def no_args_def)

text \<open>
  C5. The buckets come in ascending order of their period, each period once, and a
  non-negative limit keeps the first \<open>limit\<close> of the buckets that the aggregation without a
  limit returns. The witness takes the first 3 of the 10 daily buckets of ten days.
\<close>

theorem limit_keeps_earliest_buckets:
  assumes "aggregate_timeframe_data conn name tf sd ed (- 1) = Inr full" and "0 \<le> limit"
  shows "aggregate_timeframe_data conn name tf sd ed limit = Inr (take (nat limit) full)
    \<and> sorted (map dp_datetime full) \<and> distinct (map dp_datetime full)"
proof -
  from assms(1) obtain m db t where h: "map_of intervals tf = Some m" "conn = Inr db"
    "from_table db name = Inr t" "missing_column t bar_columns = None"
    by (rule aggregate_InrE)
  let ?p = "period_expression m"
  have full: "full = map aggregated_point (aggregate_query ?p t sd ed (- 1))"
    using assms(1) aggregate_returns [OF h(1,3,4)] h(2) by simp
  have "aggregate_timeframe_data conn name tf sd ed limit
      = Inr (map aggregated_point (aggregate_query ?p t sd ed limit))"
    using aggregate_returns [OF h(1,3,4)] h(2) by simp
  also have "map aggregated_point (aggregate_query ?p t sd ed limit) = take (nat limit) full"
    unfolding full using assms(2)
    by (subst aggregate_query_limit) (simp add: sql_limit_def take_map)
  finally have "aggregate_timeframe_data conn name tf sd ed limit = Inr (take (nat limit) full)" .
  moreover have "sorted (map dp_datetime full)" "distinct (map dp_datetime full)"
    unfolding full datetimes_of_aggregate_query by simp_all
  ultimately show ?thesis by simp
qed

theorem limit_keeps_earliest_buckets_witness:
  "(0::int) \<le> 3
   \<and> length (projr (aggregate_timeframe_data (Inr [(''es_bars'', ten_days)]) ''es_bars'' ''1day''
        None None (- 1))) = 10
   \<and> aggregate_timeframe_data (Inr [(''es_bars'', ten_days)]) ''es_bars'' ''1day'' None None 3
       = Inr [\<lparr>dp_datetime = Some ''2024-01-01'', dp_open = 1, dp_high = 2, dp_low = 1,
                dp_close = 2, dp_volume = 1, dp_bar_count = Some 1\<rparr>,
              \<lparr>dp_datetime = Some ''2024-01-02'', dp_open = 2, dp_high = 3, dp_low = 2,
                dp_close = 3, dp_volume = 2, dp_bar_count = Some 1\<rparr>,
              \<lparr>dp_datetime = Some ''2024-01-03'', dp_open = 3, dp_high = 4, dp_low = 3,
                dp_close = 4, dp_volume = 3, dp_bar_count = Some 1\<rparr>]"
  using limit_keeps_earliest_buckets [OF ten_days_1day, of 3] ten_days_1day by simp

text \<open>
  C6. A table whose name holds no \<^verbatim>\<open>]\<close> is listed exactly when the lower-cased
  names of its columns include the five required ones (volume is not among them) and it
  has a row; table names are distinct up to the case of letters, as SQLite keeps them. The
  witness lists a bar table, and neither a table without the close column nor a bar table
  without rows. The claim without the condition on the name fails: for a table named
  \<^verbatim>\<open>a]b\<close> the inspection statements do not parse, the
  \<^verbatim>\<open>sqlite3.Error\<close> is caught, and the table is skipped although it has the
  columns and a row.
\<close>

theorem catalog_lists_tables_with_bars:
  assumes "distinct (map (\<lambda>e. py_lower (fst e)) db)" and "(name, t) \<in> set db"
    and "CHR '']'' \<notin> set name"
  shows "name \<in> table_name ` set (detect_trading_tables_scan (Inr db))
    \<longleftrightarrow> set required_columns \<subseteq> set (map py_lower (columns t)) \<and> rows t \<noteq> []"
proof -
  have f: "from_table db name = Inr t" using assms by (rule from_table_unique)
  have n: "name \<in> fst ` set db" using assms(2) by force
  have "name \<in> table_name ` set (detect_trading_tables_scan (Inr db))
    \<longleftrightarrow> describe_table db name \<noteq> None"
    unfolding set_scan using n by (auto simp: describe_table_name image_iff)
  then show ?thesis by (simp only: describe_table_iff [OF f])
qed

theorem catalog_lists_tables_with_bars_witness:
  "distinct (map (\<lambda>e. py_lower (fst e)) catalog_example)
   \<and> ''es_bars'' \<in> table_name ` set (detect_trading_tables_scan (Inr catalog_example))
   \<and> ''no_close'' \<notin> table_name ` set (detect_trading_tables_scan (Inr catalog_example))
   \<and> ''empty_bars'' \<notin> table_name ` set (detect_trading_tables_scan (Inr catalog_example))"
proof -
  have d: "distinct (map (\<lambda>e. py_lower (fst e)) catalog_example)"
    by (simp add: catalog_example_def text_eval)
  have "''close_price'' \<notin> set (map py_lower [''bar_end_datetime'', ''open_price'',
      ''high_price'', ''low_price'', ''volume''])"
    by (simp add: text_eval)
  then have n: "\<not> set required_columns \<subseteq> set (map py_lower [''bar_end_datetime'',
      ''open_price'', ''high_price'', ''low_price'', ''volume''])"
    by (auto simp: required_columns_def)
  have a: "''es_bars'' \<in> table_name ` set (detect_trading_tables_scan (Inr catalog_example))"
    using catalog_lists_tables_with_bars [OF d, of "''es_bars''"
        "\<lparr>columns = bar_columns, rows = [es_bar]\<rparr>"] required_in_bar_columns
    by (simp add: catalog_example_def py_lower_bar_columns del: set_map)
  have b: "''no_close'' \<notin> table_name ` set (detect_trading_tables_scan (Inr catalog_example))"
    using catalog_lists_tables_with_bars [OF d, of "''no_close''"
        "\<lparr>columns = [''bar_end_datetime'', ''open_price'', ''high_price'', ''low_price'',
           ''volume''], rows = [es_bar]\<rparr>"] n
    by (simp add: catalog_example_def del: set_map list.map)
  have c: "''empty_bars'' \<notin> table_name ` set (detect_trading_tables_scan (Inr catalog_example))"
    using catalog_lists_tables_with_bars [OF d, of "''empty_bars''"
        "\<lparr>columns = bar_columns, rows = []\<rparr>"]
    by (simp add: catalog_example_def)
  from d a b c show ?thesis by blast
qed

theorem bracket_name_is_skipped:
  "set required_columns \<subseteq> set (map py_lower (columns \<lparr>columns = bar_columns, rows = [es_bar]\<rparr>))
   \<and> rows \<lparr>columns = bar_columns, rows = [es_bar]\<rparr> \<noteq> []
   \<and> ''a]b'' \<notin> table_name ` set (detect_trading_tables_scan
        (Inr [(''a]b'', \<lparr>columns = bar_columns, rows = [es_bar]\<rparr>)]))"
proof -
  have "describe_table [(''a]b'', \<lparr>columns = bar_columns, rows = [es_bar]\<rparr>)] ''a]b'' = None"
    by (simp add: describe_table_def table_info_def from_table_def)
  then have "detect_trading_tables_scan (Inr [(''a]b'', \<lparr>columns = bar_columns, rows = [es_bar]\<rparr>)]) = []"
    by (simp add: detect_trading_tables_scan_def map_filter_simps)
  then show ?thesis
    using required_in_bar_columns by (simp add: py_lower_bar_columns del: set_map)
qed

text \<open>
  C7. The limit is clamped from above only: \<^verbatim>\<open>min(int(limit), MAX_DATA_POINTS)\<close>
  leaves a negative limit as it is, and SQLite reads a negative \<^verbatim>\<open>LIMIT\<close> as no
  limit. A request with \<^verbatim>\<open>limit=-1\<close> for the raw bars of a table of 50001
  rows is answered with all 50001 of them, more than \<open>MAX_DATA_POINTS\<close>.
\<close>

theorem negative_limit_returns_every_row:
  "get_data (Inr [(''es_bars'', \<lparr>columns = bar_columns, rows = replicate 50001 es_bar\<rparr>)])
     ''es_bars'' (no_args\<lparr>arg_timeframe := Some ''raw'', arg_limit := Some (Inr (- 1))\<rparr>)
   = \<lparr>status = 200, body = JsonData (replicate 50001 (raw_point es_bar))\<rparr>
   \<and> int (length (replicate 50001 (raw_point es_bar))) > MAX_DATA_POINTS"
proof -
  have "get_data (Inr [(''es_bars'', \<lparr>columns = bar_columns, rows = replicate n es_bar\<rparr>)])
     ''es_bars'' (no_args\<lparr>arg_timeframe := Some ''raw'', arg_limit := Some (Inr (- 1))\<rparr>)
   = \<lparr>status = 200, body = JsonData (replicate n (raw_point es_bar))\<rparr>" for n
    by (simp add: get_data_def get_data_handler_def handle_db_errors_def valid_es_bars
        table_exists_def request_limit_def MAX_DATA_POINTS_def raw_data_def from_es_bars
        bar_columns_present raw_rows_def date_conditions_def sort_key_replicate sql_limit_def
        no_args_def)
  moreover have "int (length (replicate 50001 (raw_point es_bar))) > MAX_DATA_POINTS"
    unfolding length_replicate MAX_DATA_POINTS_def by simp
  ultimately show ?thesis by blast
qed




text \<open>
  C10. When the connection cannot be obtained, the scan is caught and the catalog is the
  empty tuple: \<open>get_instruments\<close> answers 200 with an empty list, and the cache then holds
  that empty catalog, so every later request gets the same answer whatever the store has
  become.
\<close>

theorem failed_scan_is_empty_and_cached:
  "get_instruments (Inl e) \<lparr>catalog_cache = None\<rparr>
     = (\<lparr>status = 200, body = JsonInstruments []\<rparr>, \<lparr>catalog_cache = Some []\<rparr>)
   \<and> get_instruments conn \<lparr>catalog_cache = Some []\<rparr>
     = (\<lparr>status = 200, body = JsonInstruments []\<rparr>, \<lparr>catalog_cache = Some []\<rparr>)"
  by (simp add: get_instruments_def detect_trading_tables_def detect_trading_tables_scan_def
      handle_db_errors_def)

end
